theory Spec2Isabelle
  imports Complex_Main
begin

section \<open>JavaScript values and the state document\<close>

text \<open>
  A JavaScript number that \<^verbatim>\<open>JSON.parse\<close> or \<^verbatim>\<open>Date.now()\<close> can produce is a finite
  double or an infinity (\<^verbatim>\<open>1e999\<close> parses to \<^verbatim>\<open>Infinity\<close>). The code only compares and
  copies such numbers, so a finite double is modelled by the rational it denotes.
\<close>

datatype jsnum = NegInf | Fin rat | PosInf

text \<open>The comparison \<^verbatim>\<open>a > b\<close> on two numbers.\<close>

fun num_gt :: "jsnum \<Rightarrow> jsnum \<Rightarrow> bool" where
  "num_gt (Fin a) (Fin b) = (b < a)"
| "num_gt PosInf PosInf = False"
| "num_gt PosInf b = True"
| "num_gt NegInf b = False"
| "num_gt (Fin a) NegInf = True"
| "num_gt (Fin a) PosInf = False"

text \<open>Values held in the properties of a document.\<close>

datatype jsval =
    VUndefined
  | VNull
  | VBool bool
  | VNum jsnum
  | VStr string
  | VArr "jsval list"
  | VObj "(string \<times> jsval) list"

text \<open>
  \<^verbatim>\<open>SyncedState\<close> (sync-service.ts, lines 8-16) at run time: an object, or an array, since
  nothing but a type cast stands between \<^verbatim>\<open>request.json()\<close> and the handlers.
  \<^item> \<open>elems\<close> is \<open>Some xs\<close> when the value is an Array with elements \<open>xs\<close>, and \<open>None\<close>
    for a plain object;
  \<^item> \<open>lastUpdated\<close> is the property of that name, declared \<^verbatim>\<open>number\<close> by the interface;
    \<open>None\<close> is JavaScript's \<^verbatim>\<open>undefined\<close> (the property is absent). Documents whose
    \<^verbatim>\<open>lastUpdated\<close> holds something that is not a number are outside the model;
  \<^item> \<open>props\<close> holds the other own properties (\<^verbatim>\<open>controlMode\<close>, \<^verbatim>\<open>signalStatus\<close>, ...).
\<close>

record doc =
  elems :: "jsval list option"
  lastUpdated :: "jsnum option"
  props :: "string \<rightharpoonup> jsval"

text \<open>
  \<^verbatim>\<open>x.lastUpdated > y.lastUpdated\<close>: a comparison with \<^verbatim>\<open>undefined\<close> on either side
  converts it to \<^verbatim>\<open>NaN\<close> and is false.
\<close>

fun js_gt :: "jsnum option \<Rightarrow> jsnum option \<Rightarrow> bool" where
  "js_gt (Some a) (Some b) = num_gt a b"
| "js_gt a b = False"

text \<open>The object literal \<^verbatim>\<open>{}\<close>.\<close>

definition empty_object :: doc where
  "empty_object = \<lparr>elems = None, lastUpdated = None, props = Map.empty\<rparr>"

text \<open>
  What \<^verbatim>\<open>request.json()\<close> resolves to: any JSON value. \<open>JObj d\<close> stands for both
  JSON objects and JSON arrays, told apart by \<open>elems d\<close>.
\<close>

datatype json =
    JNull
  | JBool bool
  | JNum jsnum
  | JStr string
  | JObj doc

text \<open>The request body: \<^verbatim>\<open>request.json()\<close> rejects when the body is not JSON text.\<close>

datatype request_body = Unparseable | Parsed json

text \<open>\<^verbatim>\<open>!v\<close> is \<open>\<not> truthy v\<close>; \<^verbatim>\<open>typeof v\<close>.\<close>

fun truthy :: "json \<Rightarrow> bool" where
  "truthy JNull = False"
| "truthy (JBool b) = b"
| "truthy (JNum n) = (n \<noteq> Fin 0)"
| "truthy (JStr s) = (s \<noteq> [])"
| "truthy (JObj d) = True"

fun typeof :: "json \<Rightarrow> string" where
  "typeof JNull = ''object''"
| "typeof (JBool b) = ''boolean''"
| "typeof (JNum n) = ''number''"
| "typeof (JStr s) = ''string''"
| "typeof (JObj d) = ''object''"

section \<open>Responses\<close>

text \<open>
  The argument of \<^verbatim>\<open>NextResponse.json\<close>, before serialisation:
  \<^verbatim>\<open>{ error: msg }\<close>, a bare document, or \<^verbatim>\<open>{ success: true, state: d }\<close>
  where \<open>d\<close> is a document or \<^verbatim>\<open>null\<close> (\<open>None\<close>).
\<close>

datatype payload =
    ErrorBody string
  | StateBody doc
  | SuccessBody "doc option"

record response =
  status :: nat
  body :: payload

definition json_response :: "nat \<Rightarrow> payload \<Rightarrow> response" where
  "json_response st p = \<lparr>status = st, body = p\<rparr>"

section \<open>The persistence adapter (db-adapter.ts)\<close>

text \<open>
  \<^verbatim>\<open>DbAdapter\<close> is an interface: \<^verbatim>\<open>getState(): Promise<SyncedState | null>\<close> and
  \<^verbatim>\<open>saveState(state): Promise<boolean>\<close>. Its implementations reach a backing store
  through \<^verbatim>\<open>fetch\<close> or \<^verbatim>\<open>localStorage\<close>, which are not part of the repository. The
  backing store is a single optional document; whether a call succeeds is decided by the
  environment and given to the model as an input.
\<close>

datatype error = AdapterError

datatype save_outcome = SaveOk | SaveRefused | SaveThrows

definition db_getState :: "bool \<Rightarrow> doc option \<Rightarrow> error + doc option" where
  "db_getState throws db = (if throws then Inl AdapterError else Inr db)"

fun db_saveState :: "save_outcome \<Rightarrow> doc option \<Rightarrow> doc \<Rightarrow> (error + bool) \<times> doc option" where
  "db_saveState SaveOk db d = (Inr True, Some d)"
| "db_saveState SaveRefused db d = (Inr False, db)"
| "db_saveState SaveThrows db d = (Inl AdapterError, db)"

text \<open>
  What the environment decides during one request. A handler is modelled as one step:
  no other request is served while it awaits the adapter.
\<close>

record env =
  now :: int
  getState_throws :: bool
  saveState_outcome :: save_outcome

section \<open>The endpoint of app/api/state/route.ts\<close>

text \<open>
  The module state: the adapter's store, the \<^verbatim>\<open>clients\<close> map (line 9; a client is
  named by its key) and the trace of \<^verbatim>\<open>client.write\<close> calls, each recorded with the
  document handed to \<^verbatim>\<open>JSON.stringify\<close>.
\<close>

record server =
  db :: "doc option"
  clients :: "string list"
  written :: "(string \<times> doc) list"

definition initial_server :: server where
  "initial_server = \<lparr>db = None, clients = [], written = []\<rparr>"

text \<open>\<^verbatim>\<open>notifyClients\<close> (lines 59-63).\<close>

definition notifyClients :: "doc \<Rightarrow> server \<Rightarrow> server" where
  "notifyClients st s = s\<lparr>written := written s @ map (\<lambda>c. (c, st)) (clients s)\<rparr>"

text \<open>\<^verbatim>\<open>GET\<close> (lines 12-20).\<close>

definition route_GET :: "env \<Rightarrow> server \<Rightarrow> response \<times> server" where
  "route_GET e s =
     (case db_getState (getState_throws e) (db s) of
        Inl err \<Rightarrow> (json_response 500 (ErrorBody ''Failed to retrieve state''), s)
      | Inr st \<Rightarrow>
          (json_response 200 (StateBody (case st of Some d \<Rightarrow> d | None \<Rightarrow> empty_object)), s))"

text \<open>
  The condition of line 36 (and of line 31 of simplified-route.ts):
  \<^verbatim>\<open>!currentState || newState.lastUpdated > currentState.lastUpdated\<close>.
\<close>

definition admits :: "doc option \<Rightarrow> doc \<Rightarrow> bool" where
  "admits currentState newState =
     (case currentState of
        None \<Rightarrow> True
      | Some cur \<Rightarrow> js_gt (lastUpdated newState) (lastUpdated cur))"

text \<open>\<^verbatim>\<open>newState.lastUpdated = Date.now()\<close>.\<close>

definition stamp :: "int \<Rightarrow> doc \<Rightarrow> doc" where
  "stamp t d = d\<lparr>lastUpdated := Some (Fin (of_int t))\<rparr>"

text \<open>
  \<^verbatim>\<open>POST\<close> (lines 23-56). Every exception inside the \<^verbatim>\<open>try\<close> block ends in the
  \<^verbatim>\<open>catch\<close> of lines 52-55. The last branch of the case on the body is never
  taken: only an object or an array passes the check of line 28
  (lemma \<open>validation_passes_iff\<close>).
\<close>

definition failed_update :: response where
  "failed_update = json_response 500 (ErrorBody ''Failed to update state'')"

definition invalid_state :: response where
  "invalid_state = json_response 400 (ErrorBody ''Invalid state data'')"

definition route_POST :: "env \<Rightarrow> server \<Rightarrow> request_body \<Rightarrow> response \<times> server" where
  "route_POST e s b =
     (case b of
        Unparseable \<Rightarrow> (failed_update, s)
      | Parsed v \<Rightarrow>
          if \<not> truthy v \<or> typeof v \<noteq> ''object'' then (invalid_state, s)
          else (case v of
            JObj newState \<Rightarrow>
              (case db_getState (getState_throws e) (db s) of
                 Inl err \<Rightarrow> (failed_update, s)
               | Inr currentState \<Rightarrow>
                   if admits currentState newState then
                     (let newState' = stamp (now e) newState;
                          (success, db') = db_saveState (saveState_outcome e) (db s) newState'
                      in case success of
                           Inl err \<Rightarrow> (failed_update, s\<lparr>db := db'\<rparr>)
                         | Inr ok \<Rightarrow>
                             if \<not> ok then (failed_update, s\<lparr>db := db'\<rparr>)
                             else (json_response 200 (SuccessBody (Some newState')),
                                   notifyClients newState' (s\<lparr>db := db'\<rparr>)))
                   else (json_response 200 (SuccessBody (Some newState)), s))
          | _ \<Rightarrow> (invalid_state, s)))"

section \<open>The endpoint of app/api/state/simplified-route.ts\<close>

text \<open>The module state is the variable \<^verbatim>\<open>currentState\<close> (line 8), initially \<^verbatim>\<open>null\<close>.\<close>

type_synonym simple_server = "doc option"

text \<open>\<^verbatim>\<open>GET\<close> (lines 11-18).\<close>

definition simplified_GET :: "simple_server \<Rightarrow> response \<times> simple_server" where
  "simplified_GET currentState =
     (json_response 200
        (StateBody (case currentState of Some d \<Rightarrow> d | None \<Rightarrow> empty_object)),
      currentState)"

text \<open>
  \<^verbatim>\<open>POST\<close> (lines 21-44): the response carries the module variable \<^verbatim>\<open>currentState\<close>
  as it stands after the \<^verbatim>\<open>if\<close> of line 31.
\<close>

definition simplified_POST :: "int \<Rightarrow> simple_server \<Rightarrow> request_body \<Rightarrow> response \<times> simple_server" where
  "simplified_POST t currentState b =
     (case b of
        Unparseable \<Rightarrow> (failed_update, currentState)
      | Parsed v \<Rightarrow>
          if \<not> truthy v \<or> typeof v \<noteq> ''object'' then (invalid_state, currentState)
          else (case v of
            JObj newState \<Rightarrow>
              (let currentState' =
                     (if admits currentState newState then Some (stamp t newState)
                      else currentState)
               in (json_response 200 (SuccessBody currentState'), currentState'))
          | _ \<Rightarrow> (invalid_state, currentState)))"

text \<open>A sequence of requests to the endpoint of route.ts, served in order.\<close>

datatype route_request = Get env | Post env request_body

fun route_handle :: "server \<Rightarrow> route_request \<Rightarrow> server" where
  "route_handle s (Get e) = snd (route_GET e s)"
| "route_handle s (Post e b) = snd (route_POST e s b)"

definition route_run :: "server \<Rightarrow> route_request list \<Rightarrow> server" where
  "route_run s rs = foldl route_handle s rs"

section \<open>The synchronization engine (lib/sync-service.ts, class SyncService)\<close>

text \<open>
  The fields of the class that the operations below read or write. A callback is named
  by a value of type \<open>'cb\<close>, compared as JavaScript compares function references; calling
  it is recorded in \<open>invoked\<close> together with the document it received, in the order of the
  calls, and is taken to return normally. \<open>clientId\<close> is \<^verbatim>\<open>config.clientId\<close>.
  \<open>websocket_open\<close> is the test of line 288; \<open>sent\<close> records the \<^verbatim>\<open>state_update\<close> messages
  of line 289 (document and client id).
\<close>

record 'cb engine =
  state :: doc
  onStateChangeCallbacks :: "'cb list"
  isInitialized :: bool
  clientId :: string
  websocket_open :: bool
  invoked :: "('cb \<times> doc) list"
  sent :: "(doc \<times> string) list"

text \<open>\<^verbatim>\<open>notifyStateChange\<close> (lines 261-263).\<close>

definition notifyStateChange :: "'cb engine \<Rightarrow> 'cb engine" where
  "notifyStateChange g =
     g\<lparr>invoked := invoked g @ map (\<lambda>callback. (callback, state g)) (onStateChangeCallbacks g)\<rparr>"

text \<open>
  \<^verbatim>\<open>initialize\<close> (lines 115-129), up to the start of the transport: the saved document,
  if the adapter returns one, replaces the in-memory document without any comparison.
  What the transport delivers later arrives through \<^verbatim>\<open>updateState\<close>.
\<close>

definition initialize :: "bool \<Rightarrow> doc option \<Rightarrow> 'cb engine \<Rightarrow> 'cb engine" where
  "initialize throws store g =
     (if isInitialized g then g
      else
        (let g1 = g\<lparr>isInitialized := True\<rparr>
         in case db_getState throws store of
              Inl err \<Rightarrow> g1
            | Inr savedState \<Rightarrow>
                (case savedState of
                   None \<Rightarrow> g1
                 | Some d \<Rightarrow> notifyStateChange (g1\<lparr>state := d\<rparr>))))"

text \<open>\<^verbatim>\<open>cleanup\<close> (lines 333-348), on the fields modelled: the socket is closed.\<close>

definition cleanup :: "'cb engine \<Rightarrow> 'cb engine" where
  "cleanup g = g\<lparr>websocket_open := False\<rparr>"

text \<open>
  \<^verbatim>\<open>updateConfig\<close> (lines 322-330): \<open>cid\<close> is the new \<^verbatim>\<open>clientId\<close>, if the partial
  configuration has one; \<open>store\<close> is the backing store of the adapter in use after line 326.
\<close>

definition updateConfig :: "string option \<Rightarrow> bool \<Rightarrow> doc option \<Rightarrow> 'cb engine \<Rightarrow> 'cb engine" where
  "updateConfig cid throws store g =
     initialize throws store
       ((cleanup (g\<lparr>clientId := (case cid of None \<Rightarrow> clientId g | Some c \<Rightarrow> c)\<rparr>))
          \<lparr>isInitialized := False\<rparr>)"

text \<open>\<^verbatim>\<open>updateState\<close> (lines 252-258).\<close>

definition updateState :: "doc \<Rightarrow> 'cb engine \<Rightarrow> 'cb engine" where
  "updateState newState g =
     (if js_gt (lastUpdated newState) (lastUpdated (state g))
      then notifyStateChange (g\<lparr>state := newState\<rparr>)
      else g)"

text \<open>
  Object spread \<^verbatim>\<open>{...d}\<close> copies the own enumerable properties of \<open>d\<close>: for an Array its
  elements under the keys \<^verbatim>\<open>"0"\<close>, \<^verbatim>\<open>"1"\<close>, ..., then the named properties.
\<close>

function string_of_nat :: "nat \<Rightarrow> string" where
  "string_of_nat n =
     (if n < 10 then [''0123456789'' ! n]
      else string_of_nat (n div 10) @ [''0123456789'' ! (n mod 10)])"
  by pat_completeness auto
termination
  by (relation "measure id") auto

declare string_of_nat.simps [simp del]

definition index_props :: "jsval list \<Rightarrow> string \<rightharpoonup> jsval" where
  "index_props xs = map_of (zip (map string_of_nat [0..<length xs]) xs)"

definition own_props :: "doc \<Rightarrow> string \<rightharpoonup> jsval" where
  "own_props d = (case elems d of None \<Rightarrow> props d | Some xs \<Rightarrow> index_props xs ++ props d)"

text \<open>
  The object literal of lines 274-279:
  \<^verbatim>\<open>{ ...this.state, ...partialState, lastUpdated: Date.now(), lastUpdatedBy: clientId }\<close>.
\<close>

definition merged_state :: "int \<Rightarrow> string \<Rightarrow> doc \<Rightarrow> doc \<Rightarrow> doc" where
  "merged_state t cid st partialState =
     \<lparr>elems = None,
      lastUpdated = Some (Fin (of_int t)),
      props = (own_props st ++ own_props partialState)(''lastUpdatedBy'' \<mapsto> VStr cid)\<rparr>"

text \<open>
  \<^verbatim>\<open>updateStateAndPublish\<close> (lines 271-307). \<open>t\<close> is the reading of \<^verbatim>\<open>Date.now()\<close>,
  \<open>out\<close> what the adapter's \<^verbatim>\<open>saveState\<close> does and \<open>store\<close> the adapter's backing store.
  The call is one step: nothing else touches the engine while it awaits the adapter.
\<close>

definition updateStateAndPublish ::
  "int \<Rightarrow> save_outcome \<Rightarrow> doc \<Rightarrow> doc option \<times> 'cb engine \<Rightarrow> bool \<times> doc option \<times> 'cb engine" where
  "updateStateAndPublish t out partialState sg =
     (let (store, g) = sg;
          newState = merged_state t (clientId g) (state g) partialState;
          (saveSuccess, store') = db_saveState out store newState
      in case saveSuccess of
           Inl err \<Rightarrow> (False, store', g)
         | Inr ok \<Rightarrow>
             if \<not> ok then (False, store', g)
             else
               (let g1 = (if websocket_open g
                          then g\<lparr>sent := sent g @ [(newState, clientId g)]\<rparr> else g);
                    g2 = g1\<lparr>state := newState\<rparr>
                in (True, store', notifyStateChange g2)))"

text \<open>
  \<^verbatim>\<open>onStateChange\<close> (lines 310-319) returns the closure of lines 316-318, here
  \<open>unsubscribe callback\<close>, together with the engine after the call.
\<close>

definition unsubscribe :: "'cb \<Rightarrow> 'cb engine \<Rightarrow> 'cb engine" where
  "unsubscribe callback g =
     g\<lparr>onStateChangeCallbacks := filter (\<lambda>cb. cb \<noteq> callback) (onStateChangeCallbacks g)\<rparr>"

definition onStateChange :: "'cb \<Rightarrow> 'cb engine \<Rightarrow> ('cb engine \<Rightarrow> 'cb engine) \<times> 'cb engine" where
  "onStateChange callback g =
     (unsubscribe callback,
      g\<lparr>onStateChangeCallbacks := onStateChangeCallbacks g @ [callback],
        invoked := invoked g @ [(callback, state g)]\<rparr>)"

text \<open>
  What can happen to an engine after it was built: a document arrives from the transport
  or the poll (\<^verbatim>\<open>updateState\<close>); a consumer publishes, subscribes, or calls the
  unsubscribe function it was given; the engine is reconfigured, possibly with another
  adapter (\<open>Some store'\<close>); the socket opens or closes.
\<close>

datatype 'cb engine_call =
    Remote doc
  | Publish int save_outcome doc
  | Subscribe 'cb
  | Unsubscribe 'cb
  | Reconfigure "string option" "doc option option" bool
  | Socket bool

fun engine_handle :: "doc option \<times> 'cb engine \<Rightarrow> 'cb engine_call \<Rightarrow> doc option \<times> 'cb engine" where
  "engine_handle (store, g) (Remote d) = (store, updateState d g)"
| "engine_handle (store, g) (Publish t out p) = snd (updateStateAndPublish t out p (store, g))"
| "engine_handle (store, g) (Subscribe cb) = (store, snd (onStateChange cb g))"
| "engine_handle (store, g) (Unsubscribe cb) = (store, unsubscribe cb g)"
| "engine_handle (store, g) (Reconfigure cid adapter throws) =
     (let store' = (case adapter of None \<Rightarrow> store | Some st \<Rightarrow> st)
      in (store', updateConfig cid throws store' g))"
| "engine_handle (store, g) (Socket opened) = (store, g\<lparr>websocket_open := opened\<rparr>)"

definition engine_run :: "doc option \<times> 'cb engine \<Rightarrow> 'cb engine_call list \<Rightarrow> doc option \<times> 'cb engine" where
  "engine_run sg cs = foldl engine_handle sg cs"

section \<open>Observations on traces and stamps\<close>

text \<open>The documents a callback has been called with, oldest first.\<close>

definition calls_of :: "'cb \<Rightarrow> 'cb engine \<Rightarrow> doc list" where
  "calls_of cb g = map snd (filter (\<lambda>p. fst p = cb) (invoked g))"





section \<open>Example values\<close>

text \<open>An environment in which the adapter works, with \<^verbatim>\<open>Date.now()\<close> reading \<open>t\<close>.\<close>

definition healthy :: "int \<Rightarrow> env" where
  "healthy t = \<lparr>now = t, getState_throws = False, saveState_outcome = SaveOk\<rparr>"

text \<open>The document \<^verbatim>\<open>{ controlMode: mode, lastUpdated: t }\<close> and the array \<^verbatim>\<open>[]\<close>.\<close>

definition example_doc :: "string \<Rightarrow> rat \<Rightarrow> doc" where
  "example_doc mode t =
     \<lparr>elems = None, lastUpdated = Some (Fin t), props = [''controlMode'' \<mapsto> VStr mode]\<rparr>"

definition empty_array :: doc where
  "empty_array = \<lparr>elems = Some [], lastUpdated = None, props = Map.empty\<rparr>"

text \<open>A server of route.ts whose adapter holds \<open>d\<close>, with no stream client registered.\<close>

definition holding :: "doc \<Rightarrow> server" where
  "holding d = \<lparr>db = Some d, clients = [], written = []\<rparr>"

text \<open>
  An engine holding \<^verbatim>\<open>{ controlMode: "auto", lastUpdated: 1000 }\<close> with two subscribers,
  and the partial edit \<^verbatim>\<open>{ controlMode: mode }\<close>.
\<close>

definition example_engine :: "nat engine" where
  "example_engine =
     \<lparr>state = example_doc ''auto'' 1000, onStateChangeCallbacks = [1, 2],
      isInitialized = True, clientId = ''client_a'', websocket_open = False,
      invoked = [], sent = []\<rparr>"

definition edit_mode :: "string \<Rightarrow> doc" where
  "edit_mode mode =
     \<lparr>elems = None, lastUpdated = None, props = [''controlMode'' \<mapsto> VStr mode]\<rparr>"

section \<open>The comparison of stamps\<close>

lemma num_gt_irrefl: "\<not> num_gt a a"
  by (cases a) auto

lemma num_gt_trans: "num_gt a b \<Longrightarrow> num_gt b c \<Longrightarrow> num_gt a c"
  by (cases a; cases b; cases c) auto

lemma js_gt_irrefl: "\<not> js_gt a a"
  by (cases a) (auto simp: num_gt_irrefl)

lemma js_gt_trans: "js_gt a b \<Longrightarrow> js_gt b c \<Longrightarrow> js_gt a c"
  by (cases a; cases b; cases c) (auto intro: num_gt_trans)




section \<open>The two POST handlers, case by case\<close>

text \<open>The check of line 28 lets exactly the objects and arrays through.\<close>

lemma validation_passes_iff:
  "(\<not> (\<not> truthy v \<or> typeof v \<noteq> ''object'')) = (\<exists>d. v = JObj d)"
  by (cases v) auto

lemma route_POST_object:
  "route_POST e s (Parsed (JObj d)) =
     (if getState_throws e then (failed_update, s)
      else if admits (db s) d then
        (case saveState_outcome e of
           SaveOk \<Rightarrow>
             (json_response 200 (SuccessBody (Some (stamp (now e) d))),
              notifyClients (stamp (now e) d) (s\<lparr>db := Some (stamp (now e) d)\<rparr>))
         | SaveRefused \<Rightarrow> (failed_update, s)
         | SaveThrows \<Rightarrow> (failed_update, s))
      else (json_response 200 (SuccessBody (Some d)), s))"
  by (simp add: route_POST_def db_getState_def Let_def split: save_outcome.split)

lemma simplified_POST_object:
  "simplified_POST t cs (Parsed (JObj d)) =
     (if admits cs d
      then (json_response 200 (SuccessBody (Some (stamp t d))), Some (stamp t d))
      else (json_response 200 (SuccessBody cs), cs))"
  by (simp add: simplified_POST_def Let_def)

text \<open>A JSON value that is neither an object nor an array is answered with 400.\<close>

lemma POST_rejects_non_object:
  assumes "\<forall>d. v \<noteq> JObj d"
  shows "route_POST e s (Parsed v) = (invalid_state, s)"
    and "simplified_POST t cs (Parsed v) = (invalid_state, cs)"
  using assms by (cases v; simp add: route_POST_def simplified_POST_def)+

text \<open>A body that is not JSON text makes \<^verbatim>\<open>request.json()\<close> throw: the answer is 500.\<close>

lemma POST_unparseable:
  "route_POST e s Unparseable = (failed_update, s)"
  "simplified_POST t cs Unparseable = (failed_update, cs)"
  by (simp_all add: route_POST_def simplified_POST_def)

text \<open>
  With a working adapter the store of route.ts moves as the variable of
  simplified-route.ts does.
\<close>

lemma route_POST_healthy_db:
  "db (snd (route_POST (healthy t) s (Parsed (JObj d))))
     = snd (simplified_POST t (db s) (Parsed (JObj d)))"
  by (simp add: route_POST_object simplified_POST_object healthy_def notifyClients_def)

text \<open>Two POSTs in a row, the first of them admitted.\<close>

lemma simplified_POST_twice:
  assumes "admits cs X"
  shows "snd (simplified_POST t2 (snd (simplified_POST t1 cs (Parsed (JObj X)))) (Parsed (JObj Y)))
       = Some (if js_gt (lastUpdated Y) (Some (Fin (of_int t1))) then stamp t2 Y else stamp t1 X)"
  using assms by (simp add: simplified_POST_object admits_def stamp_def)

text \<open>What a POST can do to the server of route.ts: nothing, or one accepted write.\<close>

lemma route_POST_effect:
  "snd (route_POST e s b) = s
   \<or> (\<exists>d. b = Parsed (JObj d) \<and> admits (db s) d
          \<and> snd (route_POST e s b) =
              notifyClients (stamp (now e) d) (s\<lparr>db := Some (stamp (now e) d)\<rparr>))"
proof (cases b)
  case Unparseable
  then show ?thesis by (simp add: POST_unparseable)
next
  case (Parsed v)
  show ?thesis
  proof (cases "\<exists>d. v = JObj d")
    case True
    then obtain d where "v = JObj d" by blast
    with Parsed show ?thesis
      by (simp add: route_POST_object split: save_outcome.split)
  next
    case False
    with Parsed show ?thesis by (simp add: POST_rejects_non_object)
  qed
qed

lemma route_handle_effect:
  "route_handle s r = s
   \<or> (\<exists>e d. r = Post e (Parsed (JObj d)) \<and> admits (db s) d
          \<and> route_handle s r =
              notifyClients (stamp (now e) d) (s\<lparr>db := Some (stamp (now e) d)\<rparr>))"
proof (cases r)
  case (Get e)
  then show ?thesis by (simp add: route_GET_def db_getState_def)
next
  case (Post e b)
  then show ?thesis using route_POST_effect [of e s b] by auto
qed



section \<open>Stale writes\<close>

text \<open>
  C1: a POST whose candidate is not newer than the stored document leaves the store as it
  is, and the response's \<^verbatim>\<open>state\<close> should be the stored document. The handler of
  simplified-route.ts answers with the stored document; the handler of route.ts
  (line 51) answers with \<^verbatim>\<open>newState\<close>, the rejected candidate.
\<close>

theorem C1_route_echoes_stale_candidate:
  assumes "db s = Some cur" and "\<not> js_gt (lastUpdated d) (lastUpdated cur)"
    and "\<not> getState_throws e"
  shows "route_POST e s (Parsed (JObj d)) = (json_response 200 (SuccessBody (Some d)), s)
       \<and> simplified_POST t (Some cur) (Parsed (JObj d)) =
           (json_response 200 (SuccessBody (Some cur)), Some cur)"
  using assms by (simp add: route_POST_object simplified_POST_object admits_def)

text \<open>
  The scenario of the specification: \<^verbatim>\<open>{controlMode:"manual"}\<close> is stored at 2000 and
  \<^verbatim>\<open>{controlMode:"semi", lastUpdated:1500}\<close> is submitted. route.ts returns the
  document whose \<^verbatim>\<open>controlMode\<close> is \<^verbatim>\<open>"semi"\<close>.
\<close>

theorem C1_stale_semi_scenario:
  "body (fst (route_POST (healthy 3000) (holding (example_doc ''manual'' 2000))
            (Parsed (JObj (example_doc ''semi'' 1500)))))
     = SuccessBody (Some (example_doc ''semi'' 1500))
   \<and> props (example_doc ''semi'' 1500) ''controlMode'' = Some (VStr ''semi'')
   \<and> db (snd (route_POST (healthy 3000) (holding (example_doc ''manual'' 2000))
            (Parsed (JObj (example_doc ''semi'' 1500)))))
     = Some (example_doc ''manual'' 2000)
   \<and> body (fst (simplified_POST 3000 (Some (example_doc ''manual'' 2000))
            (Parsed (JObj (example_doc ''semi'' 1500)))))
     = SuccessBody (Some (example_doc ''manual'' 2000))"
proof -
  have stale: "\<not> js_gt (lastUpdated (example_doc ''semi'' 1500))
                        (lastUpdated (example_doc ''manual'' 2000))"
    by (simp add: example_doc_def)
  have held: "db (holding (example_doc ''manual'' 2000)) = Some (example_doc ''manual'' 2000)"
    by (simp add: holding_def)
  have quiet: "\<not> getState_throws (healthy 3000)"
    by (simp add: healthy_def)
  from C1_route_echoes_stale_candidate [OF held stale quiet, of 3000]
  show ?thesis
    by (simp add: json_response_def held) (simp add: example_doc_def)
qed

text \<open>
  C4: submitting a document whose \<^verbatim>\<open>lastUpdated\<close> equals the stored one (the stored
  document itself, in particular) is not admitted: both handlers leave their state as it
  was, whatever the adapter and the clock do.
\<close>

theorem C4_resubmission_not_admitted:
  assumes "lastUpdated d = lastUpdated cur" and "db s = Some cur"
  shows "snd (route_POST e s (Parsed (JObj d))) = s
       \<and> snd (simplified_POST t (Some cur) (Parsed (JObj d))) = Some cur"
  using assms
  by (simp add: route_POST_object simplified_POST_object admits_def js_gt_irrefl)

theorem C4_resubmit_current_document:
  "snd (route_POST (healthy 3000) (holding (example_doc ''manual'' 2000))
          (Parsed (JObj (example_doc ''manual'' 2000))))
     = holding (example_doc ''manual'' 2000)
   \<and> snd (simplified_POST 3000 (Some (example_doc ''manual'' 2000))
          (Parsed (JObj (example_doc ''manual'' 2000))))
     = Some (example_doc ''manual'' 2000)"
  using C4_resubmission_not_admitted
          [of "example_doc ''manual'' 2000" "example_doc ''manual'' 2000"
              "holding (example_doc ''manual'' 2000)" "healthy 3000" 3000]
  by (simp add: holding_def)

section \<open>Admission and stamping\<close>

text \<open>
  C3: on an object body, and with a working adapter, the store moves only when nothing
  is stored or the candidate's own (client) \<^verbatim>\<open>lastUpdated\<close> compares greater than the
  stored one; the clock plays no part in that decision. What is then persisted is the
  candidate with \<^verbatim>\<open>lastUpdated\<close> overwritten by the server's clock reading, and that is
  the document a following GET returns. The same holds of simplified-route.ts.
\<close>

theorem C3_client_stamp_admits_server_stamp_persists:
  assumes "\<not> getState_throws e" and "saveState_outcome e = SaveOk"
    and "\<not> getState_throws e'"
  shows "db (snd (route_POST e s (Parsed (JObj d)))) =
           (case db s of
              None \<Rightarrow> Some (d\<lparr>lastUpdated := Some (Fin (of_int (now e)))\<rparr>)
            | Some cur \<Rightarrow>
                if js_gt (lastUpdated d) (lastUpdated cur)
                then Some (d\<lparr>lastUpdated := Some (Fin (of_int (now e)))\<rparr>)
                else Some cur)
       \<and> (admits (db s) d \<longrightarrow>
            fst (route_GET e' (snd (route_POST e s (Parsed (JObj d))))) =
              json_response 200 (StateBody (d\<lparr>lastUpdated := Some (Fin (of_int (now e)))\<rparr>)))
       \<and> snd (simplified_POST t cs (Parsed (JObj d))) =
           (case cs of
              None \<Rightarrow> Some (d\<lparr>lastUpdated := Some (Fin (of_int t))\<rparr>)
            | Some cur \<Rightarrow>
                if js_gt (lastUpdated d) (lastUpdated cur)
                then Some (d\<lparr>lastUpdated := Some (Fin (of_int t))\<rparr>)
                else Some cur)
       \<and> (admits cs d \<longrightarrow>
            fst (simplified_GET (snd (simplified_POST t cs (Parsed (JObj d))))) =
              json_response 200 (StateBody (d\<lparr>lastUpdated := Some (Fin (of_int t))\<rparr>)))"
  using assms
  by (simp add: route_POST_object simplified_POST_object admits_def stamp_def
      route_GET_def simplified_GET_def db_getState_def notifyClients_def
      split: option.split)

text \<open>
  The first step of the specification's scenario: \<^verbatim>\<open>"auto"\<close> is stored at 1000, the
  client submits \<^verbatim>\<open>"manual"\<close> stamped 2000, the server's clock reads 7000.
\<close>

theorem C3_manual_write_scenario:
  "db (snd (route_POST (healthy 7000) (holding (example_doc ''auto'' 1000))
             (Parsed (JObj (example_doc ''manual'' 2000)))))
     = Some (example_doc ''manual'' 7000)
   \<and> fst (route_GET (healthy 7001)
        (snd (route_POST (healthy 7000) (holding (example_doc ''auto'' 1000))
               (Parsed (JObj (example_doc ''manual'' 2000))))))
     = json_response 200 (StateBody (example_doc ''manual'' 7000))
   \<and> snd (simplified_POST 7000 (Some (example_doc ''auto'' 1000))
             (Parsed (JObj (example_doc ''manual'' 2000))))
     = Some (example_doc ''manual'' 7000)"
proof -
  have stamped: "(example_doc ''manual'' 2000)\<lparr>lastUpdated := Some (Fin (of_int 7000))\<rparr>
                   = example_doc ''manual'' 7000"
    by (simp add: example_doc_def)
  have newer: "js_gt (lastUpdated (example_doc ''manual'' 2000))
                     (lastUpdated (example_doc ''auto'' 1000))"
    by (simp add: example_doc_def)
  have e: "\<not> getState_throws (healthy 7000)" "saveState_outcome (healthy 7000) = SaveOk"
    "\<not> getState_throws (healthy 7001)" "now (healthy 7000) = 7000"
    by (simp_all add: healthy_def)
  have h: "db (holding (example_doc ''auto'' 1000)) = Some (example_doc ''auto'' 1000)"
    by (simp add: holding_def)
  from C3_client_stamp_admits_server_stamp_persists [OF e(1) e(2) e(3),
        of "holding (example_doc ''auto'' 1000)" "example_doc ''manual'' 2000" 7000
           "Some (example_doc ''auto'' 1000)"]
  show ?thesis
    using stamped newer by (simp add: e(4) h admits_def)
qed

text \<open>
  C2, as stated, fails: the document stored after A is admitted carries the server's
  stamp, and B is compared against that stamp, not against A's own. With client stamps
  1000 and 2000 and a server clock at 5000, A then B leaves A stored (in both handlers);
  with client stamps 10000 and 20000 and the same clock, B then A leaves A stored.
\<close>

theorem C2_late_server_clock_counterexample:
  "js_gt (lastUpdated (example_doc ''semi'' 2000)) (lastUpdated (example_doc ''manual'' 1000))
   \<and> snd (simplified_POST 6000 (snd (simplified_POST 5000 None
         (Parsed (JObj (example_doc ''manual'' 1000)))))
         (Parsed (JObj (example_doc ''semi'' 2000))))
     = Some (example_doc ''manual'' 5000)
   \<and> db (snd (route_POST (healthy 6000)
         (snd (route_POST (healthy 5000) initial_server
            (Parsed (JObj (example_doc ''manual'' 1000)))))
         (Parsed (JObj (example_doc ''semi'' 2000)))))
     = Some (example_doc ''manual'' 5000)
   \<and> js_gt (lastUpdated (example_doc ''semi'' 20000)) (lastUpdated (example_doc ''manual'' 10000))
   \<and> snd (simplified_POST 6000 (snd (simplified_POST 5000 None
         (Parsed (JObj (example_doc ''semi'' 20000)))))
         (Parsed (JObj (example_doc ''manual'' 10000))))
     = Some (example_doc ''manual'' 6000)
   \<and> example_doc ''manual'' 5000 \<noteq> stamp 6000 (example_doc ''semi'' 2000)
   \<and> example_doc ''manual'' 6000 \<noteq> stamp 5000 (example_doc ''semi'' 20000)"
  by (simp add: simplified_POST_def route_POST_def admits_def stamp_def example_doc_def
      healthy_def initial_server_def db_getState_def notifyClients_def Let_def)

text \<open>
  C2, amended: let A and B be documents with \<open>A.lastUpdated < B.lastUpdated\<close>, A being
  admitted against the store (which is empty or holds an older stamp), the adapter
  working, and let the server's clock read \<open>t1\<close> at the first POST and \<open>t2\<close> at the second.
  Submitting A then B leaves B stored with stamp \<open>t2\<close> when \<open>B.lastUpdated > t1\<close>, and A
  with stamp \<open>t1\<close> otherwise. Submitting B then A leaves B stored with stamp \<open>t1\<close>,
  untouched by A, when \<open>A.lastUpdated\<close> is not greater than \<open>t1\<close>, and A with stamp \<open>t2\<close>
  otherwise.
\<close>

theorem C2_order_of_submission_under_server_stamps:
  assumes "js_gt (lastUpdated B) (lastUpdated A)" and "admits cs A"
  shows "snd (simplified_POST t2 (snd (simplified_POST t1 cs (Parsed (JObj A)))) (Parsed (JObj B)))
           = Some (if js_gt (lastUpdated B) (Some (Fin (of_int t1)))
                   then stamp t2 B else stamp t1 A)
       \<and> snd (simplified_POST t2 (snd (simplified_POST t1 cs (Parsed (JObj B)))) (Parsed (JObj A)))
           = Some (if js_gt (lastUpdated A) (Some (Fin (of_int t1)))
                   then stamp t2 A else stamp t1 B)
       \<and> db (snd (route_POST (healthy t2)
                (snd (route_POST (healthy t1) (s\<lparr>db := cs\<rparr>) (Parsed (JObj A))))
                (Parsed (JObj B))))
           = Some (if js_gt (lastUpdated B) (Some (Fin (of_int t1)))
                   then stamp t2 B else stamp t1 A)
       \<and> db (snd (route_POST (healthy t2)
                (snd (route_POST (healthy t1) (s\<lparr>db := cs\<rparr>) (Parsed (JObj B))))
                (Parsed (JObj A))))
           = Some (if js_gt (lastUpdated A) (Some (Fin (of_int t1)))
                   then stamp t2 A else stamp t1 B)"
proof -
  have B_admitted: "admits cs B"
    using assms by (auto simp: admits_def split: option.splits intro: js_gt_trans)
  note AB = simplified_POST_twice [OF assms(2), of t2 t1 B]
  note BA = simplified_POST_twice [OF B_admitted, of t2 t1 A]
  show ?thesis
    using AB BA by (simp add: route_POST_healthy_db)
qed

text \<open>Client stamps 1000 and 2000, server clock at 1500 and then 1600: B wins both ways.\<close>

theorem C2_server_clock_between_the_stamps:
  "snd (simplified_POST 1600 (snd (simplified_POST 1500 None
         (Parsed (JObj (example_doc ''manual'' 1000)))))
         (Parsed (JObj (example_doc ''semi'' 2000))))
     = Some (example_doc ''semi'' 1600)
   \<and> snd (simplified_POST 1600 (snd (simplified_POST 1500 None
         (Parsed (JObj (example_doc ''semi'' 2000)))))
         (Parsed (JObj (example_doc ''manual'' 1000))))
     = Some (example_doc ''semi'' 1500)"
proof -
  have newer: "js_gt (lastUpdated (example_doc ''semi'' 2000))
                     (lastUpdated (example_doc ''manual'' 1000))"
    by (simp add: example_doc_def)
  have first: "admits None (example_doc ''manual'' 1000)"
    by (simp add: admits_def)
  from C2_order_of_submission_under_server_stamps [OF newer first, of 1600 1500]
  show ?thesis
    by (simp add: stamp_def example_doc_def)
qed

section \<open>Bodies that are not documents\<close>

text \<open>
  C10: an array body passes the check of line 28 (it is truthy and its \<^verbatim>\<open>typeof\<close> is
  \<^verbatim>\<open>"object"\<close>), so both handlers treat it as a candidate and answer 200; when nothing
  is stored the array is admitted, stamped with the server's clock and saved.
\<close>

theorem C10_array_body_is_a_candidate:
  assumes "elems d = Some xs"
  shows "truthy (JObj d) \<and> typeof (JObj d) = ''object''
       \<and> status (fst (simplified_POST t cs (Parsed (JObj d)))) = 200
       \<and> (\<not> getState_throws e \<and> saveState_outcome e = SaveOk \<longrightarrow>
            status (fst (route_POST e s (Parsed (JObj d)))) = 200)
       \<and> simplified_POST t None (Parsed (JObj d)) =
           (json_response 200 (SuccessBody (Some (d\<lparr>lastUpdated := Some (Fin (of_int t))\<rparr>))),
            Some (d\<lparr>lastUpdated := Some (Fin (of_int t))\<rparr>))
       \<and> (\<not> getState_throws e \<and> saveState_outcome e = SaveOk \<and> db s = None \<longrightarrow>
            fst (route_POST e s (Parsed (JObj d))) =
              json_response 200 (SuccessBody (Some (d\<lparr>lastUpdated := Some (Fin (of_int (now e)))\<rparr>)))
          \<and> db (snd (route_POST e s (Parsed (JObj d)))) =
              Some (d\<lparr>lastUpdated := Some (Fin (of_int (now e)))\<rparr>))
       \<and> elems (d\<lparr>lastUpdated := Some (Fin (of_int t))\<rparr>) = Some xs"
  using assms
  by (simp add: route_POST_object simplified_POST_object admits_def stamp_def
      json_response_def notifyClients_def)

theorem C10_empty_array_stored:
  "simplified_POST 4000 None (Parsed (JObj empty_array)) =
     (json_response 200 (SuccessBody (Some (empty_array\<lparr>lastUpdated := Some (Fin 4000)\<rparr>))),
      Some (empty_array\<lparr>lastUpdated := Some (Fin 4000)\<rparr>))
   \<and> db (snd (route_POST (healthy 4000) initial_server (Parsed (JObj empty_array)))) =
       Some (empty_array\<lparr>lastUpdated := Some (Fin 4000)\<rparr>)"
proof -
  have arr: "elems empty_array = Some []"
    by (simp add: empty_array_def)
  have e: "\<not> getState_throws (healthy 4000) \<and> saveState_outcome (healthy 4000) = SaveOk
           \<and> db initial_server = None" "now (healthy 4000) = 4000"
    by (simp_all add: healthy_def initial_server_def)
  from C10_array_body_is_a_candidate [OF arr, of 4000 _ "healthy 4000" initial_server]
  show ?thesis
    by (simp add: e)
qed

text \<open>
  C5: a body that is not a JSON object should be answered with a 400-class response and
  leave the following GET as it was. The handlers do so for \<^verbatim>\<open>null\<close>, booleans, numbers
  and strings (lemma \<open>POST_rejects_non_object\<close>), but not for an array: on an empty store
  the answer is 200 and the following GET returns the stamped array instead of \<^verbatim>\<open>{}\<close>.
  A body that is not JSON text at all is answered with 500.
\<close>

theorem C5_array_body_accepted_and_stored:
  assumes "elems d = Some xs"
  shows "status (fst (simplified_POST t None (Parsed (JObj d)))) = 200
       \<and> fst (simplified_GET None) = json_response 200 (StateBody empty_object)
       \<and> fst (simplified_GET (snd (simplified_POST t None (Parsed (JObj d)))))
           = json_response 200 (StateBody (stamp t d))
       \<and> status (fst (route_POST (healthy t) initial_server (Parsed (JObj d)))) = 200
       \<and> fst (route_GET (healthy t) initial_server) = json_response 200 (StateBody empty_object)
       \<and> fst (route_GET (healthy t')
               (snd (route_POST (healthy t) initial_server (Parsed (JObj d)))))
           = json_response 200 (StateBody (stamp t d))
       \<and> stamp t d \<noteq> empty_object
       \<and> status (fst (simplified_POST t cs Unparseable)) = 500
       \<and> status (fst (route_POST e s Unparseable)) = 500"
proof -
  have "elems (stamp t d) \<noteq> elems empty_object"
    using assms by (simp add: stamp_def empty_object_def)
  then have "stamp t d \<noteq> empty_object"
    by auto
  then show ?thesis
    by (simp add: route_POST_object simplified_POST_object POST_unparseable admits_def
        healthy_def initial_server_def route_GET_def simplified_GET_def db_getState_def
        notifyClients_def json_response_def failed_update_def)
qed

theorem C5_empty_array_on_empty_store:
  "status (fst (simplified_POST 4000 None (Parsed (JObj empty_array)))) = 200
   \<and> fst (simplified_GET (snd (simplified_POST 4000 None (Parsed (JObj empty_array)))))
       = json_response 200 (StateBody (stamp 4000 empty_array))
   \<and> fst (simplified_GET None) = json_response 200 (StateBody empty_object)
   \<and> stamp 4000 empty_array \<noteq> empty_object"
proof -
  have arr: "elems empty_array = Some []"
    by (simp add: empty_array_def)
  from C5_array_body_accepted_and_stored [OF arr, of 4000]
  show ?thesis
    by simp
qed

section \<open>The broadcast of route.ts\<close>

lemma route_handle_clients: "clients (route_handle s r) = clients s"
  using route_handle_effect [of s r] by (auto simp: notifyClients_def)

lemma route_run_clients: "clients (route_run s rs) = clients s"
  unfolding route_run_def
  by (induction rs arbitrary: s) (simp_all add: route_handle_clients)

lemma route_handle_silent: "clients s = [] \<Longrightarrow> written (route_handle s r) = written s"
  using route_handle_effect [of s r] by (auto simp: notifyClients_def)

lemma route_run_silent: "clients s = [] \<Longrightarrow> written (route_run s rs) = written s"
  unfolding route_run_def
  by (induction rs arbitrary: s) (simp_all add: route_handle_silent route_handle_clients)

text \<open>
  C9: an accepted write of route.ts writes one event, carrying the stored document, to
  each client of the \<^verbatim>\<open>clients\<close> map, in the map's order; no POST writes anything to a
  client that is not in the map. Neither handler ever adds to the map, which is created
  empty: whatever requests arrive, no stream receives an event.
\<close>

theorem C9_broadcast_reaches_the_registry_only:
  "(\<not> getState_throws e \<and> saveState_outcome e = SaveOk \<and> admits (db s) d \<longrightarrow>
      written (snd (route_POST e s (Parsed (JObj d))))
        = written s @ map (\<lambda>c. (c, stamp (now e) d)) (clients s))
   \<and> (\<forall>c. c \<notin> set (clients s) \<longrightarrow>
        filter (\<lambda>w. fst w = c) (written (snd (route_POST e s b)))
          = filter (\<lambda>w. fst w = c) (written s))
   \<and> clients (route_run s rs) = clients s
   \<and> clients initial_server = []
   \<and> written (route_run initial_server rs) = []"
proof -
  have quiet: "filter (\<lambda>w. fst w = c) (map (\<lambda>c. (c, n)) (clients s)) = []"
    if "c \<notin> set (clients s)" for c n
    using that by (auto simp: filter_empty_conv)
  have others: "filter (\<lambda>w. fst w = c) (written (snd (route_POST e s b)))
          = filter (\<lambda>w. fst w = c) (written s)" if "c \<notin> set (clients s)" for c
    using route_POST_effect [of e s b] quiet [OF that]
    by (auto simp: notifyClients_def)
  have none: "written (route_run initial_server rs) = []"
    using route_run_silent [of initial_server rs] by (simp add: initial_server_def)
  show ?thesis
    using others none
    by (simp add: route_POST_object notifyClients_def route_run_clients initial_server_def)
qed

text \<open>
  Two registered streams, \<^verbatim>\<open>"a"\<close> and \<^verbatim>\<open>"b"\<close>, each receive the accepted document once;
  the stream \<^verbatim>\<open>"c"\<close> is not registered and receives nothing.
\<close>

theorem C9_two_registered_streams:
  "written (snd (route_POST (healthy 7000)
      \<lparr>db = Some (example_doc ''auto'' 1000), clients = [''a'', ''b''], written = []\<rparr>
      (Parsed (JObj (example_doc ''manual'' 2000)))))
     = [(''a'', example_doc ''manual'' 7000), (''b'', example_doc ''manual'' 7000)]
   \<and> filter (\<lambda>w. fst w = ''c'') (written (snd (route_POST (healthy 7000)
      \<lparr>db = Some (example_doc ''auto'' 1000), clients = [''a'', ''b''], written = []\<rparr>
      (Parsed (JObj (example_doc ''manual'' 2000)))))) = []
   \<and> written (route_run initial_server
        [Post (healthy 7000) (Parsed (JObj (example_doc ''manual'' 2000))), Get (healthy 7001)])
     = []"
proof -
  have pre: "\<not> getState_throws (healthy 7000) \<and> saveState_outcome (healthy 7000) = SaveOk
     \<and> admits (db \<lparr>db = Some (example_doc ''auto'' 1000), clients = [''a'', ''b''],
                     written = []\<rparr>) (example_doc ''manual'' 2000)"
    by (simp add: healthy_def admits_def example_doc_def)
  have stamped: "stamp (now (healthy 7000)) (example_doc ''manual'' 2000)
                   = example_doc ''manual'' 7000"
    by (simp add: stamp_def healthy_def example_doc_def)
  from C9_broadcast_reaches_the_registry_only
         [where e = "healthy 7000"
            and s = "\<lparr>db = Some (example_doc ''auto'' 1000), clients = [''a'', ''b''],
                      written = []\<rparr>"
            and d = "example_doc ''manual'' 2000"
            and b = "Parsed (JObj (example_doc ''manual'' 2000))"
            and rs = "[Post (healthy 7000) (Parsed (JObj (example_doc ''manual'' 2000))),
                       Get (healthy 7001)]"]
  show ?thesis
    using pre stamped by simp
qed

section \<open>The stored stamp over time\<close>











section \<open>Publishing and subscribing\<close>

text \<open>
  C7: when the adapter's \<^verbatim>\<open>saveState\<close> does not succeed (it returns \<^verbatim>\<open>false\<close>, or
  rejects), \<^verbatim>\<open>updateStateAndPublish\<close> returns \<^verbatim>\<open>false\<close> and the engine is exactly as
  before: same document, no callback called. When it succeeds the call returns
  \<^verbatim>\<open>true\<close>, the in-memory document is the shallow merge of the previous document and
  the partial edit with \<^verbatim>\<open>lastUpdated\<close> and \<^verbatim>\<open>lastUpdatedBy\<close> set, and every subscriber
  has been called once with it, in the order of registration.
\<close>

theorem C7_publish_failure_and_success:
  "(out \<noteq> SaveOk \<longrightarrow>
      updateStateAndPublish t out partialState (store, g) = (False, store, g))
   \<and> (out = SaveOk \<longrightarrow>
      (let newState = merged_state t (clientId g) (state g) partialState;
           (result, store', g') = updateStateAndPublish t out partialState (store, g)
       in result
        \<and> store' = Some newState
        \<and> state g' = newState
        \<and> invoked g' = invoked g @ map (\<lambda>cb. (cb, newState)) (onStateChangeCallbacks g)
        \<and> onStateChangeCallbacks g' = onStateChangeCallbacks g
        \<and> lastUpdated newState = Some (Fin (of_int t))
        \<and> props newState ''lastUpdatedBy'' = Some (VStr (clientId g))
        \<and> (\<forall>k. k \<noteq> ''lastUpdatedBy'' \<longrightarrow>
              props newState k =
                (case own_props partialState k of
                   Some v \<Rightarrow> Some v
                 | None \<Rightarrow> own_props (state g) k))))"
  by (cases out)
     (simp_all add: updateStateAndPublish_def notifyStateChange_def merged_state_def
       Let_def map_add_def)

text \<open>Publishing \<^verbatim>\<open>{ controlMode: "manual" }\<close> from the example engine, both ways.\<close>

theorem C7_publish_manual_mode:
  "updateStateAndPublish 5000 SaveRefused (edit_mode ''manual'') (None, example_engine)
     = (False, None, example_engine)
   \<and> fst (updateStateAndPublish 5000 SaveOk (edit_mode ''manual'') (None, example_engine))
   \<and> props (state (snd (snd (updateStateAndPublish 5000 SaveOk (edit_mode ''manual'')
        (None, example_engine))))) ''controlMode'' = Some (VStr ''manual'')
   \<and> map fst (invoked (snd (snd (updateStateAndPublish 5000 SaveOk (edit_mode ''manual'')
        (None, example_engine))))) = [1, 2]"
  using C7_publish_failure_and_success [of SaveRefused 5000 "edit_mode ''manual''" None example_engine]
    C7_publish_failure_and_success [of SaveOk 5000 "edit_mode ''manual''" None example_engine]
  by (simp add: Let_def split_beta) (simp add: example_engine_def edit_mode_def own_props_def)

text \<open>The trace of callback invocations only grows.\<close>

lemma engine_handle_invoked_grows:
  "\<exists>more. invoked (snd (engine_handle sg c)) = invoked (snd sg) @ more"
  by (cases sg; cases c)
     (auto simp: updateState_def notifyStateChange_def updateStateAndPublish_def
       onStateChange_def unsubscribe_def updateConfig_def initialize_def cleanup_def
       db_getState_def Let_def split: prod.splits sum.splits option.splits)

lemma engine_run_invoked_grows:
  "\<exists>more. invoked (snd (engine_run sg cs)) = invoked (snd sg) @ more"
proof (induction cs arbitrary: sg)
  case Nil
  then show ?case by (simp add: engine_run_def)
next
  case (Cons c cs)
  obtain m1 where m1: "invoked (snd (engine_handle sg c)) = invoked (snd sg) @ m1"
    using engine_handle_invoked_grows by blast
  obtain m2 where m2: "invoked (snd (engine_run (engine_handle sg c) cs))
                         = invoked (snd (engine_handle sg c)) @ m2"
    using Cons.IH by blast
  show ?case
    using m1 m2 by (simp add: engine_run_def)
qed

text \<open>
  A callback that is not in the list stays out of it and is not called, as long as it
  is not subscribed again.
\<close>

lemma engine_handle_unregistered:
  assumes "cb \<notin> set (onStateChangeCallbacks (snd sg))" and "c \<noteq> Subscribe cb"
  shows "cb \<notin> set (onStateChangeCallbacks (snd (engine_handle sg c)))
       \<and> calls_of cb (snd (engine_handle sg c)) = calls_of cb (snd sg)"
proof (cases sg)
  case (Pair store g)
  have quiet: "filter (\<lambda>p. fst p = cb) (map (\<lambda>callback. (callback, d)) (onStateChangeCallbacks g)) = []"
    for d
    using assms(1) Pair by (auto simp: filter_empty_conv)
  show ?thesis
  proof (cases c)
    case (Remote d)
    then show ?thesis
      using assms(1) Pair
      by (simp add: updateState_def notifyStateChange_def calls_of_def quiet)
  next
    case (Publish t out p)
    then show ?thesis
      using assms(1) Pair
      by (cases out)
         (simp_all add: updateStateAndPublish_def notifyStateChange_def calls_of_def Let_def
           quiet)
  next
    case (Subscribe cb')
    then show ?thesis
      using assms Pair by (auto simp: onStateChange_def calls_of_def)
  next
    case (Unsubscribe cb')
    then show ?thesis
      using assms(1) Pair by (simp add: unsubscribe_def calls_of_def)
  next
    case (Reconfigure cid adapter throws)
    then show ?thesis
      using assms(1) Pair
      by (simp add: updateConfig_def initialize_def cleanup_def db_getState_def
          notifyStateChange_def calls_of_def quiet Let_def split: option.split)
  next
    case (Socket opened)
    then show ?thesis
      using assms(1) Pair by (simp add: calls_of_def)
  qed
qed

lemma engine_run_unregistered:
  assumes "cb \<notin> set (onStateChangeCallbacks (snd sg))" and "Subscribe cb \<notin> set cs"
  shows "calls_of cb (snd (engine_run sg cs)) = calls_of cb (snd sg)"
  using assms
proof (induction cs arbitrary: sg)
  case Nil
  then show ?case by (simp add: engine_run_def)
next
  case (Cons c cs)
  from Cons.prems have c: "c \<noteq> Subscribe cb" and rest: "Subscribe cb \<notin> set cs"
    by auto
  from engine_handle_unregistered [OF Cons.prems(1) c]
  have step: "cb \<notin> set (onStateChangeCallbacks (snd (engine_handle sg c)))"
    "calls_of cb (snd (engine_handle sg c)) = calls_of cb (snd sg)"
    by simp_all
  from Cons.IH [OF step(1) rest] step(2) show ?case
    by (simp add: engine_run_def)
qed

text \<open>
  C6: \<^verbatim>\<open>onStateChange\<close> calls the callback exactly once, with the current in-memory
  document, before it returns (the trace has that one new entry when the call is over, and
  the document is unchanged); whatever the engine does afterwards comes later in the
  trace. Once the returned unsubscribe function has been called, in any later state
  \<open>g'\<close> of the engine, the callback is called no more, whatever updates, publications,
  reconfigurations and other subscriptions follow, until the same callback is subscribed
  again.
\<close>

theorem C6_replay_on_subscribe_silence_after_unsubscribe:
  "invoked (snd (onStateChange cb g)) = invoked g @ [(cb, state g)]
   \<and> state (snd (onStateChange cb g)) = state g
   \<and> (\<exists>later. invoked (snd (engine_run (store, snd (onStateChange cb g)) cs))
                 = invoked g @ (cb, state g) # later)
   \<and> (Subscribe cb \<notin> set cs \<longrightarrow>
        calls_of cb (snd (engine_run (store, fst (onStateChange cb g) g') cs))
          = calls_of cb g')"
proof -
  have replay: "invoked (snd (onStateChange cb g)) = invoked g @ [(cb, state g)]"
    by (simp add: onStateChange_def)
  obtain more where
    "invoked (snd (engine_run (store, snd (onStateChange cb g)) cs))
       = invoked (snd (store, snd (onStateChange cb g))) @ more"
    using engine_run_invoked_grows by blast
  then have order: "\<exists>later. invoked (snd (engine_run (store, snd (onStateChange cb g)) cs))
                 = invoked g @ (cb, state g) # later"
    using replay by simp
  have gone: "cb \<notin> set (onStateChangeCallbacks (snd (store, fst (onStateChange cb g) g')))"
    by (simp add: onStateChange_def unsubscribe_def)
  have silent: "Subscribe cb \<notin> set cs \<Longrightarrow>
        calls_of cb (snd (engine_run (store, fst (onStateChange cb g) g') cs)) = calls_of cb g'"
    using engine_run_unregistered [OF gone]
    by (simp add: onStateChange_def unsubscribe_def calls_of_def)
  show ?thesis
    using replay order silent by (simp add: onStateChange_def)
qed

text \<open>
  Callback 3 subscribes to the example engine, sees a remote update, unsubscribes, and
  misses the publication, the remote update and the reload that follow.
\<close>

theorem C6_third_subscriber:
  "invoked (snd (onStateChange 3 example_engine)) = [(3, example_doc ''auto'' 1000)]
   \<and> calls_of 3 (updateState (example_doc ''manual'' 2000) (snd (onStateChange 3 example_engine)))
       = [example_doc ''auto'' 1000, example_doc ''manual'' 2000]
   \<and> calls_of 3 (snd (engine_run
        (None, fst (onStateChange 3 example_engine)
                 (updateState (example_doc ''manual'' 2000) (snd (onStateChange 3 example_engine))))
        [Publish 5000 SaveOk (edit_mode ''semi''), Remote (example_doc ''auto'' 9000),
         Reconfigure None None False]))
       = [example_doc ''auto'' 1000, example_doc ''manual'' 2000]"
proof -
  have seen: "calls_of 3 (updateState (example_doc ''manual'' 2000)
                (snd (onStateChange 3 example_engine)))
       = [example_doc ''auto'' 1000, example_doc ''manual'' 2000]"
    by (simp add: calls_of_def updateState_def notifyStateChange_def onStateChange_def
        example_engine_def example_doc_def)
  have start: "invoked example_engine = []" "state example_engine = example_doc ''auto'' 1000"
    by (simp_all add: example_engine_def)
  from C6_replay_on_subscribe_silence_after_unsubscribe
         [where cb = 3 and g = example_engine and store = None
            and g' = "updateState (example_doc ''manual'' 2000)
                        (snd (onStateChange 3 example_engine))"
            and cs = "[Publish 5000 SaveOk (edit_mode ''semi''), Remote (example_doc ''auto'' 9000),
                       Reconfigure None None False]"]
  show ?thesis
    using seen by (simp add: start)
qed

end
